theory Spec2Isabelle
  imports Main "HOL-Library.Char_ord"
begin

section \<open>Strings and values of the source language\<close>

text \<open>
  The program is \<^verbatim>\<open>src/utils/config.js\<close>. A JavaScript string is modelled as a
  \<^typ>\<open>string\<close>: one \<^typ>\<open>char\<close> per code unit, which covers the code units below 256.
  A value that is either a string or \<^verbatim>\<open>undefined\<close> (a cell past the end of a row, an
  unset environment variable, a property an object lacks) is a \<^typ>\<open>string option\<close>.
\<close>

text \<open>Truthiness of such a value: \<^verbatim>\<open>!v\<close> holds for \<^verbatim>\<open>undefined\<close> and for the empty string.\<close>

definition truthy :: "string option \<Rightarrow> bool" where
  "truthy v = (case v of None \<Rightarrow> False | Some s \<Rightarrow> s \<noteq> [])"

text \<open>ToString, as a template literal or a built-in taking a string applies it.\<close>

definition js_string :: "string option \<Rightarrow> string" where
  "js_string v = (case v of None \<Rightarrow> ''undefined'' | Some s \<Rightarrow> s)"

definition string_of_bool :: "bool \<Rightarrow> string" where
  "string_of_bool b = (if b then ''true'' else ''false'')"

definition digit_char :: "nat \<Rightarrow> char" where
  "digit_char d =
     (if d = 0 then CHR ''0'' else if d = 1 then CHR ''1'' else if d = 2 then CHR ''2''
      else if d = 3 then CHR ''3'' else if d = 4 then CHR ''4'' else if d = 5 then CHR ''5''
      else if d = 6 then CHR ''6'' else if d = 7 then CHR ''7'' else if d = 8 then CHR ''8''
      else CHR ''9'')"

text \<open>The decimal numeral a template literal prints for a non-negative integer.\<close>

fun string_of_nat :: "nat \<Rightarrow> string" where
  "string_of_nat n =
     (if n < 10 then [digit_char n] else string_of_nat (n div 10) @ [digit_char (n mod 10)])"

declare string_of_nat.simps [simp del]

text \<open>
  \<^verbatim>\<open>String.prototype.trim\<close> removes white space and line terminators from both ends;
  below 256 these are the code units 9 to 13, 32 and 160.
\<close>

definition is_space :: "char \<Rightarrow> bool" where
  "is_space c =
     (let u = (of_char c :: nat) in (9 \<le> u \<and> u \<le> 13) \<or> u = 32 \<or> u = 160)"

definition trim :: "string \<Rightarrow> string" where
  "trim s = rev (dropWhile is_space (rev (dropWhile is_space s)))"

text \<open>Character classes of the two regular expressions.\<close>

definition is_upper :: "char \<Rightarrow> bool" where
  "is_upper c = (CHR ''A'' \<le> c \<and> c \<le> CHR ''Z'')"

definition is_lower :: "char \<Rightarrow> bool" where
  "is_lower c = (CHR ''a'' \<le> c \<and> c \<le> CHR ''z'')"

definition is_digit :: "char \<Rightarrow> bool" where
  "is_digit c = (CHR ''0'' \<le> c \<and> c \<le> CHR ''9'')"

definition is_nonzero_digit :: "char \<Rightarrow> bool" where
  "is_nonzero_digit c = (CHR ''1'' \<le> c \<and> c \<le> CHR ''9'')"

text \<open>The class \<^verbatim>\<open>[a-zA-Z0-9-_]\<close>: three ranges, then the hyphen and the underscore.\<close>

definition is_id_char :: "char \<Rightarrow> bool" where
  "is_id_char c = (is_lower c \<or> is_upper c \<or> is_digit c \<or> c = CHR ''-'' \<or> c = CHR ''_'')"

text \<open>A thrown \<^verbatim>\<open>Error\<close>: the program only ever reads its message.\<close>

datatype error = Error (message: string)

section \<open>isValidCellAddress\<close>

text \<open>
  \<^verbatim>\<open>/^[A-Z]+[1-9][0-9]*$/.test(cellAddress)\<close>, lines 175 to 178. The expression is
  anchored at both ends and has no flags, so \<^verbatim>\<open>$\<close> is the end of the input. The greedy
  \<^verbatim>\<open>[A-Z]+\<close> consumes the leading run of capitals; the next character must be in
  \<^verbatim>\<open>[1-9]\<close>, and everything after it in \<^verbatim>\<open>[0-9]\<close>.
\<close>

definition isValidCellAddress :: "string \<Rightarrow> bool" where
  "isValidCellAddress cellAddress =
     (let letters = takeWhile is_upper cellAddress;
          rest = dropWhile is_upper cellAddress
      in letters \<noteq> [] \<and>
         (case rest of [] \<Rightarrow> False | d # ds \<Rightarrow> is_nonzero_digit d \<and> list_all is_digit ds))"

section \<open>parseSheetIdFromUrl\<close>

text \<open>Dropping a literal prefix: what is left of the input after it, if it is there.\<close>

fun strip_prefix :: "string \<Rightarrow> string \<Rightarrow> string option" where
  "strip_prefix [] s = Some s"
| "strip_prefix (p # ps) [] = None"
| "strip_prefix (p # ps) (c # cs) = (if p = c then strip_prefix ps cs else None)"

definition sheets_segment :: string where
  "sheets_segment = ''/spreadsheets/d/''"

text \<open>
  An attempt of \<^verbatim>\<open>/\/spreadsheets\/d\/([a-zA-Z0-9-_]+)/\<close> at the start of \<open>s\<close>: the
  literal segment, then the greedy group, which takes the longest run of the class and needs
  one character at least. The result is the text of group 1.
\<close>

definition match_here :: "string \<Rightarrow> string option" where
  "match_here s =
     (case strip_prefix sheets_segment s of
        None \<Rightarrow> None
      | Some rest \<Rightarrow>
          (let run = takeWhile is_id_char rest in if run = [] then None else Some run))"

text \<open>
  \<^verbatim>\<open>url.match(re)\<close> without the global flag: the attempt is made at each position
  from the left, and the first one that succeeds is the match.
\<close>

fun url_match :: "string \<Rightarrow> string option" where
  "url_match [] = match_here []"
| "url_match (c # cs) =
     (case match_here (c # cs) of Some m \<Rightarrow> Some m | None \<Rightarrow> url_match cs)"

text \<open>Lines 9 to 22; \<^verbatim>\<open>!match[1]\<close> holds when group 1 is the empty string.\<close>

definition parseSheetIdFromUrl :: "string \<Rightarrow> error + string" where
  "parseSheetIdFromUrl url =
     (case url_match url of
        None \<Rightarrow> Inl (Error (''Invalid Google Sheets URL: '' @ url))
      | Some m \<Rightarrow>
          if m = [] then Inl (Error (''Invalid Google Sheets URL: '' @ url)) else Inr m)"

section \<open>loadConfig: discovery of the rows\<close>

text \<open>
  The calls the program makes to its logger, in order. The logger is another module; a
  call to it is recorded and taken not to throw.
\<close>

datatype log_call = Info string | Debug string | Warn string | ErrorLog string error

text \<open>
  A sheet configuration, as the object literal of lines 86 to 93 builds it. The validator
  is exported and reads the properties of whatever objects it is given, so each property is
  a string or absent.
\<close>

record sheetConfig =
  name :: "string option"
  sheetId :: "string option"
  sheetName :: "string option"
  webhookUrl :: "string option"
  currentSuppliesCell :: "string option"
  dailyConsumptionCell :: "string option"

text \<open>\<^verbatim>\<open>row[i]\<close>: the cell, or \<^verbatim>\<open>undefined\<close> past the end of the row.\<close>

definition cell :: "string list \<Rightarrow> nat \<Rightarrow> string option" where
  "cell row i = (if i < length row then Some (row ! i) else None)"

text \<open>
  The body of the loop, lines 61 to 98, for the row at index \<open>i\<close>: the configurations it
  pushes (none or one) and the log calls it makes.
\<close>

definition loadConfig_row :: "nat \<Rightarrow> string list \<Rightarrow> sheetConfig list \<times> log_call list" where
  "loadConfig_row i row =
     (let rowNumber = i + 3;
          v_name = cell row 0;
          v_sheetUrl = cell row 2;
          v_webhookUrl = cell row 12
      in if \<not> truthy v_name \<or> \<not> truthy v_sheetUrl \<or> \<not> truthy v_webhookUrl then
           ([],
            [Debug (''Skipping row '' @ string_of_nat rowNumber @
               '': missing required fields (name: '' @ string_of_bool (truthy v_name) @
               '', sheetUrl: '' @ string_of_bool (truthy v_sheetUrl) @
               '', webhookUrl: '' @ string_of_bool (truthy v_webhookUrl) @ '')'')])
         else
           (case parseSheetIdFromUrl (js_string v_sheetUrl) of
              Inr v_sheetId \<Rightarrow>
                ([\<lparr>name = Some (trim (js_string v_name)),
                   sheetId = Some v_sheetId,
                   sheetName = Some ''Sheet1'',
                   webhookUrl = Some (trim (js_string v_webhookUrl)),
                   currentSuppliesCell = Some ''C9'',
                   dailyConsumptionCell = Some ''C11''\<rparr>],
                 [Debug (''Added configuration for: '' @ js_string v_name)])
            | Inl err \<Rightarrow>
                ([],
                 [Warn (''Skipping row '' @ string_of_nat rowNumber @ '' ('' @
                    js_string v_name @ ''): '' @ message err)])))"

text \<open>
  The loop of lines 58 to 99 from index \<open>i\<close> on, over the rows that remain: what the
  iteration for the first of them pushes and logs, followed by what the later iterations do.
  With \<open>i = 0\<close> and all the rows the first component is the array \<^verbatim>\<open>config\<close>
  after the loop.
\<close>

fun loadConfig_loop :: "nat \<Rightarrow> string list list \<Rightarrow> sheetConfig list \<times> log_call list" where
  "loadConfig_loop i [] = ([], [])"
| "loadConfig_loop i (row # rows) =
     (case loadConfig_row i row of
        (pushed, notes) \<Rightarrow>
          (case loadConfig_loop (Suc i) rows of
             (config, lg) \<Rightarrow> (pushed @ config, notes @ lg)))"

text \<open>
  The rows for which the body of the loop pushes a configuration: the guard of line 74
  lets the row through, and line 83 does not throw.
\<close>

definition row_pushes :: "string list \<Rightarrow> bool" where
  "row_pushes row =
     (case (cell row 0, cell row 2, cell row 12) of
        (Some nm, Some url, Some hook) \<Rightarrow>
          nm \<noteq> [] \<and> url \<noteq> [] \<and> hook \<noteq> [] \<and>
          (case parseSheetIdFromUrl url of Inr _ \<Rightarrow> True | Inl _ \<Rightarrow> False)
      | _ \<Rightarrow> False)"

text \<open>
  Lines 53 to 105: the check of the fetched rows (\<open>None\<close> is a null or undefined
  result), the loop, and the check that a configuration was built.
\<close>

definition loadConfig_discover ::
  "string list list option \<Rightarrow> (error + sheetConfig list) \<times> log_call list" where
  "loadConfig_discover rows =
     (case rows of
        None \<Rightarrow> (Inl (Error ''No commander data found in Commander Database sheet''), [])
      | Some rs \<Rightarrow>
          if length rs = 0 then
            (Inl (Error ''No commander data found in Commander Database sheet''), [])
          else
            (case loadConfig_loop 0 rs of
               (config, lg) \<Rightarrow>
                 if length config = 0 then
                   (Inl (Error
                      ''No valid commander configurations found in Commander Database sheet''),
                    lg)
                 else (Inr config, lg)))"

section \<open>validateConfig\<close>

text \<open>The argument of the validator: an array of configurations, or anything else.\<close>

datatype js_config = NotArray | ConfigArray "sheetConfig list"

definition array_items :: "js_config \<Rightarrow> sheetConfig list" where
  "array_items v = (case v of NotArray \<Rightarrow> [] | ConfigArray cs \<Rightarrow> cs)"

text \<open>The array of lines 133 to 139, each name with the property it reads.\<close>

definition requiredFields :: "(string \<times> (sheetConfig \<Rightarrow> string option)) list" where
  "requiredFields =
     [(''name'', name), (''sheetId'', sheetId), (''webhookUrl'', webhookUrl),
      (''currentSuppliesCell'', currentSuppliesCell),
      (''dailyConsumptionCell'', dailyConsumptionCell)]"

text \<open>The inner loop of lines 141 to 147.\<close>

fun check_required ::
  "nat \<Rightarrow> sheetConfig \<Rightarrow> (string \<times> (sheetConfig \<Rightarrow> string option)) list \<Rightarrow> error + unit" where
  "check_required index c [] = Inr ()"
| "check_required index c ((field, prop) # others) =
     (if \<not> truthy (prop c) then
        Inl (Error (''Sheet configuration '' @ string_of_nat index @
               '' is missing required field: '' @ field))
      else check_required index c others)"

text \<open>
  The callback of \<^verbatim>\<open>forEach\<close>, lines 132 to 170. \<open>url_ok s\<close> stands for
  \<^verbatim>\<open>new URL(s)\<close> not throwing: the URL parser is the platform's and is a parameter
  here. The second component is the object as the callback leaves it.
\<close>

definition validate_entry ::
  "(string \<Rightarrow> bool) \<Rightarrow> nat \<Rightarrow> sheetConfig \<Rightarrow> (error + unit) \<times> sheetConfig" where
  "validate_entry url_ok index c =
     (case check_required index c requiredFields of
        Inl e \<Rightarrow> (Inl e, c)
      | Inr _ \<Rightarrow>
          if \<not> url_ok (js_string (webhookUrl c)) then
            (Inl (Error (''Sheet configuration '' @ string_of_nat index @
                    '' has invalid webhook URL: '' @ js_string (webhookUrl c))), c)
          else if \<not> isValidCellAddress (js_string (currentSuppliesCell c)) then
            (Inl (Error (''Sheet configuration '' @ string_of_nat index @
                    '' has invalid currentSuppliesCell: '' @
                    js_string (currentSuppliesCell c))), c)
          else if \<not> isValidCellAddress (js_string (dailyConsumptionCell c)) then
            (Inl (Error (''Sheet configuration '' @ string_of_nat index @
                    '' has invalid dailyConsumptionCell: '' @
                    js_string (dailyConsumptionCell c))), c)
          else (Inr (), c))"

text \<open>
  \<^verbatim>\<open>config.forEach\<close> from \<open>index\<close> on; an exception in the callback ends it. The
  second component is the content of the array afterwards.
\<close>

fun validateConfig_forEach ::
  "(string \<Rightarrow> bool) \<Rightarrow> nat \<Rightarrow> sheetConfig list \<Rightarrow> (error + unit) \<times> sheetConfig list" where
  "validateConfig_forEach url_ok index [] = (Inr (), [])"
| "validateConfig_forEach url_ok index (c # cs) =
     (case validate_entry url_ok index c of
        (Inl e, c') \<Rightarrow> (Inl e, c' # cs)
      | (Inr _, c') \<Rightarrow>
          (case validateConfig_forEach url_ok (Suc index) cs of
             (r, cs') \<Rightarrow> (r, c' # cs')))"

text \<open>
  Lines 121 to 173: the outcome, the argument as the call leaves it, and the log.
\<close>

definition validateConfig ::
  "(string \<Rightarrow> bool) \<Rightarrow> js_config \<Rightarrow> (error + unit) \<times> js_config \<times> log_call list" where
  "validateConfig url_ok config =
     (case config of
        NotArray \<Rightarrow>
          (Inl (Error ''Configuration must be an array of sheet configurations''), config, [])
      | ConfigArray cs \<Rightarrow>
          if length cs = 0 then
            (Inl (Error ''Configuration must contain at least one sheet configuration''),
             config, [])
          else
            (case validateConfig_forEach url_ok 0 cs of
               (Inl e, cs') \<Rightarrow> (Inl e, ConfigArray cs', [])
             | (Inr _, cs') \<Rightarrow>
                 (Inr (), ConfigArray cs',
                  [Info (''Configuration validation passed for '' @
                     string_of_nat (length cs') @ '' sheets'')])))"

section \<open>loadConfig\<close>

text \<open>
  The sheets service is another module: its calls are parameters. \<open>initialize\<close> stands
  for constructing and initializing the service, \<open>getRange\<close> for the fetch; each may
  throw, and the fetch may return no rows at all (\<open>None\<close>).
\<close>

record sheetsService =
  initialize :: "error + unit"
  getRange :: "string \<Rightarrow> string \<Rightarrow> string \<Rightarrow> error + string list list option"

text \<open>
  The \<^verbatim>\<open>try\<close> block, lines 30 to 114. \<open>env\<close> is
  \<^verbatim>\<open>process.env.DATABASE_SHEET_ID\<close>.
\<close>

definition loadConfig_try ::
  "(string \<Rightarrow> bool) \<Rightarrow> string option \<Rightarrow> sheetsService \<Rightarrow>
     (error + sheetConfig list) \<times> log_call list" where
  "loadConfig_try url_ok env sheetsService =
     (if \<not> truthy env then
        (Inl (Error ''DATABASE_SHEET_ID environment variable is required''), [])
      else
        (let databaseSheetId = js_string env;
             lg1 = [Info (''Loading configuration from database sheet: '' @ databaseSheetId)]
         in case initialize sheetsService of
              Inl e \<Rightarrow> (Inl e, lg1)
            | Inr _ \<Rightarrow>
                (case getRange sheetsService databaseSheetId ''A3:M'' ''Commander Database'' of
                   Inl e \<Rightarrow> (Inl e, lg1)
                 | Inr rows \<Rightarrow>
                     (case loadConfig_discover rows of
                        (Inl e, lg2) \<Rightarrow> (Inl e, lg1 @ lg2)
                      | (Inr config, lg2) \<Rightarrow>
                          (case validateConfig url_ok (ConfigArray config) of
                             (Inl e, config', lg3) \<Rightarrow> (Inl e, lg1 @ lg2 @ lg3)
                           | (Inr _, config', lg3) \<Rightarrow>
                               (Inr (array_items config'),
                                lg1 @ lg2 @ lg3 @
                                [Info (''Successfully loaded configuration for '' @
                                   string_of_nat (length (array_items config')) @
                                   '' commanders'')]))))))"

text \<open>Lines 28 to 119: the \<^verbatim>\<open>catch\<close> logs the error and throws the wrapped one.\<close>

definition loadConfig ::
  "(string \<Rightarrow> bool) \<Rightarrow> string option \<Rightarrow> sheetsService \<Rightarrow>
     (error + sheetConfig list) \<times> log_call list" where
  "loadConfig url_ok env sheetsService =
     (case loadConfig_try url_ok env sheetsService of
        (Inl e, lg) \<Rightarrow>
          (Inl (Error (''Configuration loading failed: '' @ message e)),
           lg @ [ErrorLog ''Failed to load configuration:'' e])
      | (Inr config, lg) \<Rightarrow> (Inr config, lg))"

section \<open>Notions of the specification\<close>

text \<open>
  The definitions of this section are not part of the program: they say, in the words of
  the specification, what the theorems below compare the program with.
\<close>

text \<open>
  A string contains the segment \<^verbatim>\<open>/spreadsheets/d/\<close> followed immediately by a
  character of the identifier class.
\<close>

definition contains_sheet_id :: "string \<Rightarrow> bool" where
  "contains_sheet_id url =
     (\<exists>pre c post. url = pre @ sheets_segment @ c # post \<and> is_id_char c)"

text \<open>
  A string that is empty or consists of white space only: the specification counts a
  field holding such a string as missing.
\<close>

definition is_blank :: "string \<Rightarrow> bool" where
  "is_blank s = list_all is_space s"

text \<open>
  A fully valid row, as the specification has it: a name at position 0, a URL at position
  2 and an endpoint at position 12, none of them empty, absent or white space only, and a
  URL from which the identifier can be extracted.
\<close>

definition row_valid :: "string list \<Rightarrow> bool" where
  "row_valid row =
     (case (cell row 0, cell row 2, cell row 12) of
        (Some nm, Some url, Some hook) \<Rightarrow>
          \<not> is_blank nm \<and> \<not> is_blank url \<and> \<not> is_blank hook \<and>
          (case parseSheetIdFromUrl url of Inr _ \<Rightarrow> True | Inl _ \<Rightarrow> False)
      | _ \<Rightarrow> False)"

text \<open>An incomplete row: one of the three fields is empty or absent.\<close>

definition row_incomplete :: "string list \<Rightarrow> bool" where
  "row_incomplete row =
     (cell row 0 = None \<or> cell row 0 = Some [] \<or> cell row 2 = None \<or> cell row 2 = Some [] \<or>
      cell row 12 = None \<or> cell row 12 = Some [])"

text \<open>A row with a malformed URL: there is one, and no identifier can be extracted.\<close>

definition row_malformed_url :: "string list \<Rightarrow> bool" where
  "row_malformed_url row =
     (case cell row 2 of
        None \<Rightarrow> False
      | Some url \<Rightarrow> (case parseSheetIdFromUrl url of Inl _ \<Rightarrow> True | Inr _ \<Rightarrow> False))"

text \<open>
  The record of a row that has its thirteen cells: the trimmed name, the extracted
  identifier, the trimmed endpoint and the three constants.
\<close>

definition row_record :: "string list \<Rightarrow> sheetConfig" where
  "row_record row =
     \<lparr>name = Some (trim (row ! 0)),
      sheetId = (case parseSheetIdFromUrl (row ! 2) of Inr sid \<Rightarrow> Some sid | Inl _ \<Rightarrow> None),
      sheetName = Some ''Sheet1'',
      webhookUrl = Some (trim (row ! 12)),
      currentSuppliesCell = Some ''C9'',
      dailyConsumptionCell = Some ''C11''\<rparr>"

text \<open>
  The violations of one record, in the order the specification lists the checks: the five
  required fields, the endpoint, the two cell addresses.
\<close>

definition entry_violations :: "(string \<Rightarrow> bool) \<Rightarrow> nat \<Rightarrow> sheetConfig \<Rightarrow> error list" where
  "entry_violations url_ok i c =
     (if truthy (name c) then []
      else [Error (''Sheet configuration '' @ string_of_nat i @
              '' is missing required field: name'')]) @
     (if truthy (sheetId c) then []
      else [Error (''Sheet configuration '' @ string_of_nat i @
              '' is missing required field: sheetId'')]) @
     (if truthy (webhookUrl c) then []
      else [Error (''Sheet configuration '' @ string_of_nat i @
              '' is missing required field: webhookUrl'')]) @
     (if truthy (currentSuppliesCell c) then []
      else [Error (''Sheet configuration '' @ string_of_nat i @
              '' is missing required field: currentSuppliesCell'')]) @
     (if truthy (dailyConsumptionCell c) then []
      else [Error (''Sheet configuration '' @ string_of_nat i @
              '' is missing required field: dailyConsumptionCell'')]) @
     (if url_ok (js_string (webhookUrl c)) then []
      else [Error (''Sheet configuration '' @ string_of_nat i @
              '' has invalid webhook URL: '' @ js_string (webhookUrl c))]) @
     (if isValidCellAddress (js_string (currentSuppliesCell c)) then []
      else [Error (''Sheet configuration '' @ string_of_nat i @
              '' has invalid currentSuppliesCell: '' @ js_string (currentSuppliesCell c))]) @
     (if isValidCellAddress (js_string (dailyConsumptionCell c)) then []
      else [Error (''Sheet configuration '' @ string_of_nat i @
              '' has invalid dailyConsumptionCell: '' @ js_string (dailyConsumptionCell c))])"

text \<open>The violations of an array: those of its records, in index order.\<close>

definition violations :: "(string \<Rightarrow> bool) \<Rightarrow> sheetConfig list \<Rightarrow> error list" where
  "violations url_ok cs = concat (map (\<lambda>(i, c). entry_violations url_ok i c) (enumerate 0 cs))"

text \<open>A record that passes every check.\<close>

definition entry_ok :: "(string \<Rightarrow> bool) \<Rightarrow> sheetConfig \<Rightarrow> bool" where
  "entry_ok url_ok c =
     (truthy (name c) \<and> truthy (sheetId c) \<and> truthy (webhookUrl c) \<and>
      truthy (currentSuppliesCell c) \<and> truthy (dailyConsumptionCell c) \<and>
      url_ok (js_string (webhookUrl c)) \<and>
      isValidCellAddress (js_string (currentSuppliesCell c)) \<and>
      isValidCellAddress (js_string (dailyConsumptionCell c)))"

section \<open>Example data\<close>

text \<open>Rows as the database sheet delivers them, columns A to M, used in the examples.\<close>

definition example_row_saraian :: "string list" where
  "example_row_saraian =
     [''Saraian 1st Army'', '''', ''https://docs.google.com/spreadsheets/d/1AbCdEfG/edit'',
      '''', '''', '''', '''', '''', '''', '''', '''', '''',
      ''https://discord.com/api/webhooks/123/abc'']"

definition example_row_keltic :: "string list" where
  "example_row_keltic =
     ['' Keltic Raiders '', '''', ''https://docs.google.com/spreadsheets/d/1ZyXwVu'',
      '''', '''', '''', '''', '''', '''', '''', '''', '''',
      ''https://discord.com/api/webhooks/456/def'']"

definition example_row_blank :: "string list" where
  "example_row_blank = ['''', '''', '''']"

definition example_row_short :: "string list" where
  "example_row_short =
     [''Northern Legion'', '''', ''https://docs.google.com/spreadsheets/d/1DeF'']"

definition example_row_badurl :: "string list" where
  "example_row_badurl =
     [''Northern Legion'', '''', ''https://example.com/sheets/1DeF'',
      '''', '''', '''', '''', '''', '''', '''', '''', '''',
      ''https://discord.com/api/webhooks/333/ccc'']"

definition example_row_spaces :: "string list" where
  "example_row_spaces =
     [''  '', '''', ''https://docs.google.com/spreadsheets/d/1DeF'',
      '''', '''', '''', '''', '''', '''', '''', '''', '''',
      ''https://discord.com/api/webhooks/333/ccc'']"

definition example_row_badhook :: "string list" where
  "example_row_badhook =
     [''Northern Legion'', '''', ''https://docs.google.com/spreadsheets/d/1DeF'',
      '''', '''', '''', '''', '''', '''', '''', '''', '''',
      ''abc'']"

definition example_row_blank_url :: "string list" where
  "example_row_blank_url =
     [''Northern Legion'', '''', ''  '',
      '''', '''', '''', '''', '''', '''', '''', '''', '''',
      ''https://discord.com/api/webhooks/333/ccc'']"

definition example_row_blank_hook :: "string list" where
  "example_row_blank_hook =
     [''Northern Legion'', '''', ''https://docs.google.com/spreadsheets/d/1DeF'',
      '''', '''', '''', '''', '''', '''', '''', '''', '''',
      ''  '']"

definition example_row_no_name :: "string list" where
  "example_row_no_name =
     ['''', '''', ''https://docs.google.com/spreadsheets/d/1DeF'',
      '''', '''', '''', '''', '''', '''', '''', '''', '''',
      ''https://discord.com/api/webhooks/333/ccc'']"

text \<open>A sheets service that initializes and returns the given rows for every range.\<close>

definition example_service :: "string list list option \<Rightarrow> sheetsService" where
  "example_service rows = \<lparr>initialize = Inr (), getRange = (\<lambda>_ _ _. Inr rows)\<rparr>"

text \<open>
  A stand-in for the platform's URL parser in the examples: it accepts the strings that
  begin with \<^verbatim>\<open>https://\<close>.
\<close>

definition example_url_ok :: "string \<Rightarrow> bool" where
  "example_url_ok s = (strip_prefix ''https://'' s \<noteq> None)"

text \<open>Two configurations: a complete one, and one that lacks its sheet id.\<close>

definition example_config_good :: sheetConfig where
  "example_config_good =
     \<lparr>name = Some ''Saraian 1st Army'', sheetId = Some ''1AbCdEfG'',
      sheetName = Some ''Sheet1'',
      webhookUrl = Some ''https://discord.com/api/webhooks/123/abc'',
      currentSuppliesCell = Some ''C9'', dailyConsumptionCell = Some ''C11''\<rparr>"

definition example_config_bad :: sheetConfig where
  "example_config_bad =
     \<lparr>name = Some ''Keltic Raiders'', sheetId = None,
      sheetName = Some ''Sheet1'',
      webhookUrl = Some ''https://discord.com/api/webhooks/456/def'',
      currentSuppliesCell = Some ''c9'', dailyConsumptionCell = Some ''C11''\<rparr>"

section \<open>The cell-address grammar\<close>

lemma cell_examples_accept:
  "isValidCellAddress ''A1''" "isValidCellAddress ''C9''" "isValidCellAddress ''AA10''"
  by (simp_all add: isValidCellAddress_def is_upper_def is_nonzero_digit_def is_digit_def)

lemma cell_examples_reject:
  "\<not> isValidCellAddress ''a1''" "\<not> isValidCellAddress ''A0''" "\<not> isValidCellAddress ''A01''"
  "\<not> isValidCellAddress ''1A''" "\<not> isValidCellAddress ''''"
  by (simp_all add: isValidCellAddress_def is_upper_def is_nonzero_digit_def is_digit_def)

lemma nonzero_digit_not_upper: "is_nonzero_digit d \<Longrightarrow> \<not> is_upper d"
proof
  assume "is_nonzero_digit d" and "is_upper d"
  then have "CHR ''A'' \<le> d" and "d \<le> CHR ''9''"
    by (simp_all add: is_nonzero_digit_def is_upper_def)
  then have "CHR ''A'' \<le> CHR ''9''" by (rule order_trans)
  then show False by simp
qed

lemma cell_grammar_sound:
  assumes "isValidCellAddress s"
  shows "\<exists>letters d ds. s = letters @ d # ds \<and> letters \<noteq> [] \<and> list_all is_upper letters \<and>
           is_nonzero_digit d \<and> list_all is_digit ds"
proof -
  let ?l = "takeWhile is_upper s"
  let ?r = "dropWhile is_upper s"
  from assms have l: "?l \<noteq> []"
    by (simp add: isValidCellAddress_def Let_def)
  from assms obtain d ds where r: "?r = d # ds" and d: "is_nonzero_digit d"
    and ds: "list_all is_digit ds"
    by (auto simp: isValidCellAddress_def Let_def split: list.splits)
  have "s = ?l @ d # ds"
    using r takeWhile_dropWhile_id [of is_upper s] by simp
  moreover have "list_all is_upper ?l"
    by (simp add: list_all_iff) (meson set_takeWhileD)
  ultimately show ?thesis using l d ds by blast
qed

lemma cell_grammar_complete:
  assumes "letters \<noteq> []" "list_all is_upper letters" "is_nonzero_digit d" "list_all is_digit ds"
  shows "isValidCellAddress (letters @ d # ds)"
proof -
  have nu: "\<not> is_upper d" using assms(3) by (rule nonzero_digit_not_upper)
  have all: "\<forall>x\<in>set letters. is_upper x" using assms(2) by (simp add: list_all_iff)
  have t: "takeWhile is_upper (letters @ d # ds) = letters"
    using all nu by (simp add: takeWhile_append2)
  have dr: "dropWhile is_upper (letters @ d # ds) = d # ds"
    using all nu by (simp add: dropWhile_append2)
  show ?thesis
    using assms by (simp add: isValidCellAddress_def t dr)
qed

text \<open>
  C7: the predicate accepts a string exactly when it is one or more capital letters, then
  one digit from 1 to 9, then any number of decimal digits. It accepts "A1", "C9" and
  "AA10", and rejects "a1", "A0", "A01", "1A" and the empty string. As a function from
  strings to truth values it has a value on every string and depends on nothing else.
\<close>

theorem isValidCellAddress_grammar:
  "(isValidCellAddress s \<longleftrightarrow>
      (\<exists>letters d ds. s = letters @ d # ds \<and> letters \<noteq> [] \<and> list_all is_upper letters \<and>
         is_nonzero_digit d \<and> list_all is_digit ds)) \<and>
   isValidCellAddress ''A1'' \<and> isValidCellAddress ''C9'' \<and> isValidCellAddress ''AA10'' \<and>
   \<not> isValidCellAddress ''a1'' \<and> \<not> isValidCellAddress ''A0'' \<and> \<not> isValidCellAddress ''A01'' \<and>
   \<not> isValidCellAddress ''1A'' \<and> \<not> isValidCellAddress ''''"
  using cell_grammar_sound [of s] cell_grammar_complete cell_examples_accept cell_examples_reject
  by blast


section \<open>The identifier of a sheet URL\<close>

lemma strip_prefix_Some: "strip_prefix p s = Some r \<longleftrightarrow> s = p @ r"
  by (induction p s rule: strip_prefix.induct) auto

lemma strip_prefix_append: "strip_prefix p (p @ r) = Some r"
  by (simp add: strip_prefix_Some)

lemma match_here_Some:
  assumes "match_here s = Some m"
  shows "\<exists>post. s = sheets_segment @ m @ post \<and> m \<noteq> [] \<and> list_all is_id_char m \<and>
           (case post of [] \<Rightarrow> True | c # _ \<Rightarrow> \<not> is_id_char c)"
proof -
  from assms obtain rest where s: "s = sheets_segment @ rest"
    and m: "m = takeWhile is_id_char rest" and ne: "m \<noteq> []"
    by (auto simp: match_here_def Let_def strip_prefix_Some split: option.splits if_splits)
  let ?post = "dropWhile is_id_char rest"
  have "rest = m @ ?post" by (simp add: m)
  moreover have "list_all is_id_char m"
    unfolding m list_all_iff by (meson set_takeWhileD)
  moreover have "case ?post of [] \<Rightarrow> True | c # _ \<Rightarrow> \<not> is_id_char c"
  proof (cases ?post)
    case Nil
    show ?thesis unfolding Nil by simp
  next
    case (Cons c cs)
    then have "\<not> is_id_char (hd ?post)"
      using hd_dropWhile [of is_id_char rest] by simp
    then show ?thesis by (simp add: Cons)
  qed
  ultimately show ?thesis using s ne by metis
qed

lemma match_here_segment: "is_id_char c \<Longrightarrow> match_here (sheets_segment @ c # post) \<noteq> None"
  by (simp add: match_here_def strip_prefix_append)

lemma sheets_segment_nonempty: "sheets_segment \<noteq> []"
  by (simp add: sheets_segment_def)

lemma no_match_at_head:
  assumes "match_here s = None" "s = pre @ sheets_segment @ c # post" "is_id_char c"
  shows "pre \<noteq> []"
  using assms match_here_segment by fastforce

lemma url_match_None: "url_match s = None \<Longrightarrow> \<not> contains_sheet_id s"
proof (induction s)
  case Nil
  then show ?case by (simp add: contains_sheet_id_def sheets_segment_nonempty)
next
  case (Cons x xs)
  from Cons.prems have here: "match_here (x # xs) = None" and "url_match xs = None"
    by (auto split: option.splits)
  with Cons.IH have nxs: "\<not> contains_sheet_id xs" by simp
  show ?case
  proof
    assume "contains_sheet_id (x # xs)"
    then obtain pre c post where d: "x # xs = pre @ sheets_segment @ c # post" and c: "is_id_char c"
      by (auto simp: contains_sheet_id_def)
    from no_match_at_head [OF here d c] obtain y pre' where "pre = y # pre'"
      by (cases pre) auto
    with d have "xs = pre' @ sheets_segment @ c # post" by simp
    with c nxs show False by (auto simp: contains_sheet_id_def)
  qed
qed

lemma url_match_Some:
  "url_match s = Some m \<Longrightarrow>
   \<exists>pre post. s = pre @ sheets_segment @ m @ post \<and> m \<noteq> [] \<and> list_all is_id_char m \<and>
     (case post of [] \<Rightarrow> True | c # _ \<Rightarrow> \<not> is_id_char c) \<and>
     (\<forall>pre' c' post'. s = pre' @ sheets_segment @ c' # post' \<and> is_id_char c' \<longrightarrow>
        length pre \<le> length pre')"
proof (induction s)
  case Nil
  then have "match_here [] = Some m" by simp
  from match_here_Some [OF this] show ?case by (simp add: sheets_segment_nonempty)
next
  case (Cons x xs)
  show ?case
  proof (cases "match_here (x # xs)")
    case (Some m')
    with Cons.prems have "match_here (x # xs) = Some m" by simp
    from match_here_Some [OF this] obtain post where
      "x # xs = [] @ sheets_segment @ m @ post" "m \<noteq> []" "list_all is_id_char m"
      "case post of [] \<Rightarrow> True | c # _ \<Rightarrow> \<not> is_id_char c" by auto
    then show ?thesis by (metis le0 list.size(3))
  next
    case None
    with Cons.prems have "url_match xs = Some m" by simp
    from Cons.IH [OF this] obtain pre post where
      xs: "xs = pre @ sheets_segment @ m @ post" and m: "m \<noteq> []" "list_all is_id_char m"
      and post: "case post of [] \<Rightarrow> True | c # _ \<Rightarrow> \<not> is_id_char c"
      and least: "\<And>pre' c' post'. xs = pre' @ sheets_segment @ c' # post' \<Longrightarrow> is_id_char c' \<Longrightarrow>
        length pre \<le> length pre'" by blast
    have "length (x # pre) \<le> length p"
      if d: "x # xs = p @ sheets_segment @ c' # post'" and c: "is_id_char c'" for p c' post'
    proof -
      from no_match_at_head [OF None d c] obtain y pre' where p: "p = y # pre'"
        by (cases p) auto
      with d have "xs = pre' @ sheets_segment @ c' # post'" by simp
      from least [OF this c] show ?thesis by (simp add: p)
    qed
    moreover have "x # xs = (x # pre) @ sheets_segment @ m @ post" by (simp add: xs)
    ultimately show ?thesis using m post by blast
  qed
qed

text \<open>
  C1: when the string contains the segment \<^verbatim>\<open>/spreadsheets/d/\<close> followed at once
  by an identifier character, the function returns the longest run of identifier characters
  after the leftmost such segment; when it does not, the function fails with the error
  whose message is "Invalid Google Sheets URL: " followed by the string itself.
\<close>

theorem parseSheetIdFromUrl_spec:
  "(contains_sheet_id url \<longrightarrow>
      (\<exists>pre run post. url = pre @ sheets_segment @ run @ post \<and> run \<noteq> [] \<and>
         list_all is_id_char run \<and> (case post of [] \<Rightarrow> True | c # _ \<Rightarrow> \<not> is_id_char c) \<and>
         (\<forall>pre' c' post'. url = pre' @ sheets_segment @ c' # post' \<and> is_id_char c' \<longrightarrow>
            length pre \<le> length pre') \<and>
         parseSheetIdFromUrl url = Inr run)) \<and>
   (\<not> contains_sheet_id url \<longrightarrow>
      parseSheetIdFromUrl url = Inl (Error (''Invalid Google Sheets URL: '' @ url)))"
proof (cases "url_match url")
  case None
  from url_match_None [OF this] show ?thesis
    by (simp add: parseSheetIdFromUrl_def None)
next
  case (Some m)
  from url_match_Some [OF this] obtain pre post where
    d: "url = pre @ sheets_segment @ m @ post" and m: "m \<noteq> []" "list_all is_id_char m"
    and post: "case post of [] \<Rightarrow> True | c # _ \<Rightarrow> \<not> is_id_char c"
    and least: "\<forall>pre' c' post'. url = pre' @ sheets_segment @ c' # post' \<and> is_id_char c' \<longrightarrow>
        length pre \<le> length pre'" by blast
  have p: "parseSheetIdFromUrl url = Inr m"
    using m by (simp add: parseSheetIdFromUrl_def Some)
  obtain c cs where mc: "m = c # cs" using m by (cases m) auto
  with m have "is_id_char c" by simp
  with d mc have "contains_sheet_id url"
    unfolding contains_sheet_id_def by (metis append_Cons append_assoc)
  moreover have "\<exists>pre run post. url = pre @ sheets_segment @ run @ post \<and> run \<noteq> [] \<and>
         list_all is_id_char run \<and> (case post of [] \<Rightarrow> True | c # _ \<Rightarrow> \<not> is_id_char c) \<and>
         (\<forall>pre' c' post'. url = pre' @ sheets_segment @ c' # post' \<and> is_id_char c' \<longrightarrow>
            length pre \<le> length pre') \<and>
         parseSheetIdFromUrl url = Inr run"
    using d m post least p by blast
  ultimately show ?thesis by blast
qed

theorem parseSheetIdFromUrl_spec_witness:
  "contains_sheet_id ''https://docs.google.com/spreadsheets/d/1AbC-d_9/edit#gid=0'' \<and>
   (\<exists>pre run post.
      ''https://docs.google.com/spreadsheets/d/1AbC-d_9/edit#gid=0'' = pre @ sheets_segment @ run @ post \<and>
      parseSheetIdFromUrl ''https://docs.google.com/spreadsheets/d/1AbC-d_9/edit#gid=0'' = Inr run \<and>
      run = ''1AbC-d_9'') \<and>
   \<not> contains_sheet_id ''https://docs.google.com/spreadsheets/d/'' \<and>
   parseSheetIdFromUrl ''https://docs.google.com/spreadsheets/d/'' =
     Inl (Error ''Invalid Google Sheets URL: https://docs.google.com/spreadsheets/d/'')"
proof -
  let ?u = "''https://docs.google.com/spreadsheets/d/1AbC-d_9/edit#gid=0''"
  let ?v = "''https://docs.google.com/spreadsheets/d/''"
  have "?u = ''https://docs.google.com'' @ sheets_segment @ CHR ''1'' # ''AbC-d_9/edit#gid=0'' \<and>
        is_id_char CHR ''1''"
    by (simp add: sheets_segment_def is_id_char_def is_digit_def)
  then have h: "contains_sheet_id ?u"
    unfolding contains_sheet_id_def by blast
  have e: "parseSheetIdFromUrl ?u = Inr ''1AbC-d_9''"
    by code_simp
  have f: "parseSheetIdFromUrl ?v = Inl (Error (''Invalid Google Sheets URL: '' @ ?v))"
    by code_simp
  from parseSheetIdFromUrl_spec [of ?u] h e have
    "\<exists>pre run post. ?u = pre @ sheets_segment @ run @ post \<and>
       parseSheetIdFromUrl ?u = Inr run \<and> run = ''1AbC-d_9''"
    by auto
  moreover from parseSheetIdFromUrl_spec [of ?v] f have "\<not> contains_sheet_id ?v"
    by auto
  ultimately show ?thesis using h f by simp
qed

section \<open>Discovery\<close>

lemma loadConfig_row_records:
  "fst (loadConfig_row i row) = (if row_pushes row then [row_record row] else [])"
  by (auto simp: loadConfig_row_def row_pushes_def row_record_def cell_def truthy_def
      js_string_def Let_def split: option.splits sum.splits if_splits)

lemma loadConfig_loop_Cons:
  "fst (loadConfig_loop i (row # rows)) =
     fst (loadConfig_row i row) @ fst (loadConfig_loop (Suc i) rows)"
  by (simp split: prod.splits)

lemma loadConfig_loop_records:
  "fst (loadConfig_loop i rows) = map row_record (filter row_pushes rows)"
  by (induction rows arbitrary: i) (simp_all add: loadConfig_loop_Cons loadConfig_row_records del: loadConfig_loop.simps(2))

lemma loadConfig_discover_result:
  "fst (loadConfig_discover rows) =
     (case rows of
        None \<Rightarrow> Inl (Error ''No commander data found in Commander Database sheet'')
      | Some rs \<Rightarrow>
          if rs = [] then Inl (Error ''No commander data found in Commander Database sheet'')
          else if filter row_pushes rs = [] then
            Inl (Error ''No valid commander configurations found in Commander Database sheet'')
          else Inr (map row_record (filter row_pushes rs)))"
proof (cases rows)
  case None
  then show ?thesis by (simp add: loadConfig_discover_def)
next
  case (Some rs)
  obtain config lg where l: "loadConfig_loop 0 rs = (config, lg)"
    by (cases "loadConfig_loop 0 rs")
  then have "config = map row_record (filter row_pushes rs)"
    using loadConfig_loop_records [of 0 rs] by simp
  then show ?thesis
    by (simp add: loadConfig_discover_def Some l)
qed

lemma loadConfig_loop_append:
  "fst (loadConfig_loop i (xs @ ys)) =
     fst (loadConfig_loop i xs) @ fst (loadConfig_loop (i + length xs) ys)"
  by (simp add: loadConfig_loop_records)

subsection \<open>The two failures of discovery\<close>

text \<open>
  C5: discovery fails with "No commander data found in Commander Database sheet" when the
  rows are absent or empty, and with "No valid commander configurations found in Commander
  Database sheet" when there are rows and the loop builds no record. Each of the two
  errors occurs in exactly its own case, so a caller can tell them apart.
\<close>

theorem discover_failure_kinds:
  "fst (loadConfig_discover None) =
     Inl (Error ''No commander data found in Commander Database sheet'') \<and>
   fst (loadConfig_discover (Some [])) =
     Inl (Error ''No commander data found in Commander Database sheet'') \<and>
   (rows \<noteq> [] \<and> fst (loadConfig_loop 0 rows) = [] \<longrightarrow>
      fst (loadConfig_discover (Some rows)) =
        Inl (Error ''No valid commander configurations found in Commander Database sheet'')) \<and>
   (fst (loadConfig_discover input) =
        Inl (Error ''No commander data found in Commander Database sheet'') \<longleftrightarrow>
      input = None \<or> input = Some []) \<and>
   (fst (loadConfig_discover input) =
        Inl (Error ''No valid commander configurations found in Commander Database sheet'') \<longleftrightarrow>
      (\<exists>rs. input = Some rs \<and> rs \<noteq> [] \<and> fst (loadConfig_loop 0 rs) = []))"
  by (auto simp: loadConfig_discover_result loadConfig_loop_records split: option.splits if_splits)

theorem discover_failure_kinds_witness:
  "[example_row_blank, example_row_badurl] \<noteq> [] \<and>
   fst (loadConfig_loop 0 [example_row_blank, example_row_badurl]) = [] \<and>
   fst (loadConfig_discover (Some [example_row_blank, example_row_badurl])) =
     Inl (Error ''No valid commander configurations found in Commander Database sheet'')"
proof -
  have "fst (loadConfig_loop 0 [example_row_blank, example_row_badurl]) = []"
    by code_simp
  with discover_failure_kinds [of "[example_row_blank, example_row_badurl]"] show ?thesis
    by simp
qed

subsection \<open>Short rows\<close>

text \<open>
  C9: a row with fewer than 13 cells has no cell at position 12, nor at any position from
  its length on; reading there gives the absent value. The row is reported as missing
  required fields, pushes nothing, and the loop goes on with the rows after it.
\<close>

theorem short_row_skipped:
  assumes "length row < 13"
  shows "cell row 12 = None \<and> (\<forall>k. length row \<le> k \<longrightarrow> cell row k = None) \<and>
         loadConfig_row i row =
           ([], [Debug (''Skipping row '' @ string_of_nat (i + 3) @
                   '': missing required fields (name: '' @ string_of_bool (truthy (cell row 0)) @
                   '', sheetUrl: '' @ string_of_bool (truthy (cell row 2)) @
                   '', webhookUrl: false)'')]) \<and>
         fst (loadConfig_loop i (before @ row # after)) =
           fst (loadConfig_loop i before) @ fst (loadConfig_loop (i + length before + 1) after)"
proof -
  from assms have c: "cell row 12 = None" by (simp add: cell_def)
  then have t: "\<not> truthy (cell row 12)" by (simp add: truthy_def)
  then have r: "loadConfig_row j row =
           ([], [Debug (''Skipping row '' @ string_of_nat (j + 3) @
                   '': missing required fields (name: '' @ string_of_bool (truthy (cell row 0)) @
                   '', sheetUrl: '' @ string_of_bool (truthy (cell row 2)) @
                   '', webhookUrl: false)'')])" for j
    by (simp add: loadConfig_row_def Let_def string_of_bool_def)
  have "fst (loadConfig_loop i (before @ row # after)) =
      fst (loadConfig_loop i before) @ fst (loadConfig_loop (i + length before) (row # after))"
    by (rule loadConfig_loop_append)
  also have "fst (loadConfig_loop (i + length before) (row # after)) =
      fst (loadConfig_loop (i + length before + 1) after)"
    by (simp add: loadConfig_loop_Cons r del: loadConfig_loop.simps(2))
  finally show ?thesis using c r [of i] by (simp add: cell_def)
qed

theorem short_row_skipped_witness:
  "length example_row_short < 13 \<and> cell example_row_short 12 = None \<and>
   loadConfig_row 0 example_row_short =
     ([], [Debug ''Skipping row 3: missing required fields (name: true, sheetUrl: true, webhookUrl: false)'']) \<and>
   fst (loadConfig_loop 0 [example_row_saraian, example_row_short, example_row_keltic]) =
     fst (loadConfig_loop 0 [example_row_saraian]) @ fst (loadConfig_loop 2 [example_row_keltic])"
proof -
  have l: "length example_row_short < 13" by (simp add: example_row_short_def)
  have s: "string_of_nat (0 + 3) = ''3''" by code_simp
  have c: "truthy (cell example_row_short 0)" "truthy (cell example_row_short 2)"
    by (simp_all add: truthy_def cell_def example_row_short_def)
  have n: "0 + length [example_row_saraian] + 1 = (2::nat)" by simp
  have e: "[example_row_saraian] @ example_row_short # [example_row_keltic] =
      [example_row_saraian, example_row_short, example_row_keltic]" by simp
  note t = short_row_skipped [OF l, of 0 "[example_row_saraian]" "[example_row_keltic]"]
  from t have "cell example_row_short 12 = None" by blast
  moreover from t have "loadConfig_row 0 example_row_short =
     ([], [Debug (''Skipping row '' @ string_of_nat (0 + 3) @
                   '': missing required fields (name: '' @
                   string_of_bool (truthy (cell example_row_short 0)) @
                   '', sheetUrl: '' @ string_of_bool (truthy (cell example_row_short 2)) @
                   '', webhookUrl: false)'')])" by blast
  then have "loadConfig_row 0 example_row_short =
     ([], [Debug ''Skipping row 3: missing required fields (name: true, sheetUrl: true, webhookUrl: false)''])"
    unfolding s by (simp add: c string_of_bool_def)
  moreover from t have
    "fst (loadConfig_loop 0 ([example_row_saraian] @ example_row_short # [example_row_keltic])) =
     fst (loadConfig_loop 0 [example_row_saraian]) @
     fst (loadConfig_loop (0 + length [example_row_saraian] + 1) [example_row_keltic])" by blast
  then have "fst (loadConfig_loop 0 [example_row_saraian, example_row_short, example_row_keltic]) =
     fst (loadConfig_loop 0 [example_row_saraian]) @ fst (loadConfig_loop 2 [example_row_keltic])"
    unfolding n e .
  ultimately show ?thesis using l by blast
qed

section \<open>Validation\<close>

lemma check_required_fields:
  "check_required i c requiredFields =
     (if \<not> truthy (name c) then
        Inl (Error (''Sheet configuration '' @ string_of_nat i @ '' is missing required field: name''))
      else if \<not> truthy (sheetId c) then
        Inl (Error (''Sheet configuration '' @ string_of_nat i @ '' is missing required field: sheetId''))
      else if \<not> truthy (webhookUrl c) then
        Inl (Error (''Sheet configuration '' @ string_of_nat i @ '' is missing required field: webhookUrl''))
      else if \<not> truthy (currentSuppliesCell c) then
        Inl (Error (''Sheet configuration '' @ string_of_nat i @
               '' is missing required field: currentSuppliesCell''))
      else if \<not> truthy (dailyConsumptionCell c) then
        Inl (Error (''Sheet configuration '' @ string_of_nat i @
               '' is missing required field: dailyConsumptionCell''))
      else Inr ())"
  by (simp add: requiredFields_def)

lemma validate_entry_object: "snd (validate_entry url_ok i c) = c"
  by (simp add: validate_entry_def split: sum.splits)

lemma validate_entry_outcome:
  "fst (validate_entry url_ok i c) =
     (case entry_violations url_ok i c of [] \<Rightarrow> Inr () | e # _ \<Rightarrow> Inl e)"
  by (simp add: validate_entry_def check_required_fields entry_violations_def)

lemma entry_violations_none: "entry_violations url_ok i c = [] \<longleftrightarrow> entry_ok url_ok c"
  by (auto simp: entry_violations_def entry_ok_def)

lemma forEach_array: "snd (validateConfig_forEach url_ok i cs) = cs"
proof (induction cs arbitrary: i)
  case Nil
  show ?case by simp
next
  case (Cons c cs)
  obtain r c' where e: "validate_entry url_ok i c = (r, c')"
    by (cases "validate_entry url_ok i c")
  then have c': "c' = c" using validate_entry_object [of url_ok i c] by simp
  obtain r2 cs' where f: "validateConfig_forEach url_ok (Suc i) cs = (r2, cs')"
    by (cases "validateConfig_forEach url_ok (Suc i) cs")
  then have "cs' = cs" using Cons.IH [of "Suc i"] by simp
  with e c' f show ?case by (cases r) simp_all
qed

lemma forEach_outcome:
  "fst (validateConfig_forEach url_ok i cs) =
     (case concat (map (\<lambda>(i, c). entry_violations url_ok i c) (enumerate i cs)) of
        [] \<Rightarrow> Inr () | e # _ \<Rightarrow> Inl e)"
proof (induction cs arbitrary: i)
  case Nil
  show ?case by simp
next
  case (Cons c cs)
  obtain r c' where e: "validate_entry url_ok i c = (r, c')"
    by (cases "validate_entry url_ok i c")
  then have r: "r = (case entry_violations url_ok i c of [] \<Rightarrow> Inr () | e # _ \<Rightarrow> Inl e)"
    using validate_entry_outcome [of url_ok i c] by simp
  obtain r2 cs' where f: "validateConfig_forEach url_ok (Suc i) cs = (r2, cs')"
    by (cases "validateConfig_forEach url_ok (Suc i) cs")
  then have r2: "r2 = (case concat (map (\<lambda>(i, c). entry_violations url_ok i c) (enumerate (Suc i) cs)) of
        [] \<Rightarrow> Inr () | e # _ \<Rightarrow> Inl e)" using Cons.IH [of "Suc i"] by simp
  show ?case
  proof (cases "entry_violations url_ok i c")
    case Nil
    with e r f r2 show ?thesis by simp
  next
    case (Cons v vs)
    with e r show ?thesis by simp
  qed
qed

lemma validateConfig_outcome:
  "fst (validateConfig url_ok (ConfigArray cs)) =
     (if cs = [] then Inl (Error ''Configuration must contain at least one sheet configuration'')
      else case violations url_ok cs of [] \<Rightarrow> Inr () | e # _ \<Rightarrow> Inl e)"
proof -
  obtain r cs' where f: "validateConfig_forEach url_ok 0 cs = (r, cs')"
    by (cases "validateConfig_forEach url_ok 0 cs")
  then have "r = (case violations url_ok cs of [] \<Rightarrow> Inr () | e # _ \<Rightarrow> Inl e)"
    using forEach_outcome [of url_ok 0 cs] by (simp add: violations_def)
  with f show ?thesis
    by (simp add: validateConfig_def split: sum.splits list.splits)
qed

lemma violations_none: "violations url_ok cs = [] \<longleftrightarrow> list_all (entry_ok url_ok) cs"
proof -
  have "concat (map (\<lambda>(i, c). entry_violations url_ok i c) (enumerate n cs)) = [] \<longleftrightarrow>
        list_all (entry_ok url_ok) cs" for n
    by (induction cs arbitrary: n) (simp_all add: entry_violations_none)
  then show ?thesis by (simp add: violations_def)
qed

text \<open>
  C6: the validator rejects a value that is not an array, then an empty array; for a
  non-empty array it fails with the first violation in index order, where the violations
  of one record are ordered: the five required fields name, sheetId, webhookUrl,
  currentSuppliesCell, dailyConsumptionCell, then the endpoint URL, then the two cell
  addresses. It accepts exactly a non-empty array all of whose records pass every check.
\<close>

theorem validateConfig_order:
  "fst (validateConfig url_ok NotArray) =
     Inl (Error ''Configuration must be an array of sheet configurations'') \<and>
   fst (validateConfig url_ok (ConfigArray [])) =
     Inl (Error ''Configuration must contain at least one sheet configuration'') \<and>
   (cs \<noteq> [] \<longrightarrow>
      fst (validateConfig url_ok (ConfigArray cs)) =
        (case violations url_ok cs of [] \<Rightarrow> Inr () | e # _ \<Rightarrow> Inl e)) \<and>
   (fst (validateConfig url_ok v) = Inr () \<longleftrightarrow>
      (\<exists>rs. v = ConfigArray rs \<and> rs \<noteq> [] \<and> list_all (entry_ok url_ok) rs))"
proof -
  have a: "fst (validateConfig url_ok NotArray) =
     Inl (Error ''Configuration must be an array of sheet configurations'')"
    by (simp add: validateConfig_def)
  have "fst (validateConfig url_ok (ConfigArray rs)) = Inr () \<longleftrightarrow>
      rs \<noteq> [] \<and> list_all (entry_ok url_ok) rs" for rs
    using violations_none [of url_ok rs]
    by (auto simp: validateConfig_outcome split: list.splits)
  with a have "fst (validateConfig url_ok v) = Inr () \<longleftrightarrow>
      (\<exists>rs. v = ConfigArray rs \<and> rs \<noteq> [] \<and> list_all (entry_ok url_ok) rs)"
    by (cases v) simp_all
  with a show ?thesis by (simp add: validateConfig_outcome)
qed

theorem validateConfig_order_witness:
  "[example_config_good, example_config_bad] \<noteq> [] \<and>
   fst (validateConfig example_url_ok (ConfigArray [example_config_good, example_config_bad])) =
     Inl (Error ''Sheet configuration 1 is missing required field: sheetId'') \<and>
   fst (validateConfig example_url_ok (ConfigArray [example_config_good])) = Inr ()"
proof -
  have v: "violations example_url_ok [example_config_good, example_config_bad] =
      [Error ''Sheet configuration 1 is missing required field: sheetId'',
       Error ''Sheet configuration 1 has invalid currentSuppliesCell: c9'']"
    by code_simp
  have w: "violations example_url_ok [example_config_good] = []"
    by code_simp
  from validateConfig_order [of example_url_ok "[example_config_good, example_config_bad]"]
    validateConfig_order [of example_url_ok "[example_config_good]"]
  show ?thesis by (simp add: v w)
qed

text \<open>
  C10: whatever the outcome, the argument after the call is the argument before the call:
  for an array of records, the same records with the same fields in the same order. The
  callback leaves each object as it found it.
\<close>

theorem validateConfig_reads_only:
  "fst (snd (validateConfig url_ok config)) = config \<and>
   fst (snd (validateConfig url_ok (ConfigArray records))) = ConfigArray records \<and>
   snd (validate_entry url_ok i c) = c"
proof -
  have "fst (snd (validateConfig url_ok v)) = v" for v
  proof (cases v)
    case NotArray
    then show ?thesis by (simp add: validateConfig_def)
  next
    case (ConfigArray cs)
    obtain r cs' where f: "validateConfig_forEach url_ok 0 cs = (r, cs')"
      by (cases "validateConfig_forEach url_ok 0 cs")
    then have "cs' = cs" using forEach_array [of url_ok 0 cs] by simp
    with f ConfigArray show ?thesis
      by (simp add: validateConfig_def split: sum.splits)
  qed
  then show ?thesis by (simp add: validate_entry_object)
qed

section \<open>The envelope of loadConfig\<close>

lemma loadConfig_outcome:
  "fst (loadConfig url_ok env svc) =
     (case fst (loadConfig_try url_ok env svc) of
        Inl e \<Rightarrow> Inl (Error (''Configuration loading failed: '' @ message e))
      | Inr config \<Rightarrow> Inr config)"
  by (simp add: loadConfig_def split: prod.splits sum.splits)

lemma loadConfig_try_outcome:
  "fst (loadConfig_try url_ok env svc) =
     (if \<not> truthy env then Inl (Error ''DATABASE_SHEET_ID environment variable is required'')
      else case initialize svc of
        Inl e \<Rightarrow> Inl e
      | Inr _ \<Rightarrow>
          (case getRange svc (js_string env) ''A3:M'' ''Commander Database'' of
             Inl e \<Rightarrow> Inl e
           | Inr rows \<Rightarrow>
               (case fst (loadConfig_discover rows) of
                  Inl e \<Rightarrow> Inl e
                | Inr config \<Rightarrow>
                    (case fst (validateConfig url_ok (ConfigArray config)) of
                       Inl e \<Rightarrow> Inl e
                     | Inr _ \<Rightarrow> Inr (array_items (fst (snd (validateConfig url_ok (ConfigArray config)))))))))"
  by (simp add: loadConfig_try_def Let_def split: prod.splits sum.splits)

text \<open>
  C8: every failure of loadConfig is the error "Configuration loading failed: " followed
  by the message of its cause: the missing environment variable, a failure of the sheets
  service, the empty source or the absence of valid records from discovery, and any
  failure of validation.
\<close>

theorem loadConfig_wraps:
  "(\<not> truthy env \<longrightarrow>
      fst (loadConfig url_ok env svc) =
        Inl (Error ''Configuration loading failed: DATABASE_SHEET_ID environment variable is required'')) \<and>
   (truthy env \<and> initialize svc = Inl e \<longrightarrow>
      fst (loadConfig url_ok env svc) =
        Inl (Error (''Configuration loading failed: '' @ message e))) \<and>
   (truthy env \<and> initialize svc = Inr () \<and>
    getRange svc (js_string env) ''A3:M'' ''Commander Database'' = Inl e \<longrightarrow>
      fst (loadConfig url_ok env svc) =
        Inl (Error (''Configuration loading failed: '' @ message e))) \<and>
   (truthy env \<and> initialize svc = Inr () \<and>
    getRange svc (js_string env) ''A3:M'' ''Commander Database'' = Inr rows \<and>
    fst (loadConfig_discover rows) = Inl e \<longrightarrow>
      fst (loadConfig url_ok env svc) =
        Inl (Error (''Configuration loading failed: '' @ message e))) \<and>
   (truthy env \<and> initialize svc = Inr () \<and>
    getRange svc (js_string env) ''A3:M'' ''Commander Database'' = Inr rows \<and>
    fst (loadConfig_discover rows) = Inr config \<and>
    fst (validateConfig url_ok (ConfigArray config)) = Inl e \<longrightarrow>
      fst (loadConfig url_ok env svc) =
        Inl (Error (''Configuration loading failed: '' @ message e))) \<and>
   (\<forall>err. fst (loadConfig url_ok env svc) = Inl err \<longrightarrow>
      (\<exists>cause. fst (loadConfig_try url_ok env svc) = Inl cause \<and>
         message err = ''Configuration loading failed: '' @ message cause))"
  by (auto simp: loadConfig_outcome loadConfig_try_outcome split: sum.splits)

theorem loadConfig_wraps_witness:
  "\<not> truthy None \<and>
   fst (loadConfig example_url_ok None (example_service None)) =
     Inl (Error ''Configuration loading failed: DATABASE_SHEET_ID environment variable is required'') \<and>
   truthy (Some ''db'') \<and>
   fst (loadConfig_discover (Some [example_row_blank])) =
     Inl (Error ''No valid commander configurations found in Commander Database sheet'') \<and>
   fst (loadConfig example_url_ok (Some ''db'') (example_service (Some [example_row_blank]))) =
     Inl (Error ''Configuration loading failed: No valid commander configurations found in Commander Database sheet'')"
proof -
  have a: "\<not> truthy None" "truthy (Some ''db'')" by (simp_all add: truthy_def)
  have d: "fst (loadConfig_discover (Some [example_row_blank])) =
     Inl (Error ''No valid commander configurations found in Commander Database sheet'')"
    by code_simp
  have s: "initialize (example_service (Some [example_row_blank])) = Inr ()"
    "getRange (example_service (Some [example_row_blank])) (js_string (Some ''db'')) ''A3:M''
       ''Commander Database'' = Inr (Some [example_row_blank])"
    by (simp_all add: example_service_def)
  from loadConfig_wraps [of None example_url_ok "example_service None"] a
  have "fst (loadConfig example_url_ok None (example_service None)) =
     Inl (Error ''Configuration loading failed: DATABASE_SHEET_ID environment variable is required'')"
    by simp
  moreover from loadConfig_wraps [of "Some ''db''" example_url_ok
      "example_service (Some [example_row_blank])"
      "Error ''No valid commander configurations found in Commander Database sheet''"
      "Some [example_row_blank]"] a d s
  have "fst (loadConfig example_url_ok (Some ''db'') (example_service (Some [example_row_blank]))) =
     Inl (Error ''Configuration loading failed: No valid commander configurations found in Commander Database sheet'')"
    by simp
  ultimately show ?thesis using a d by simp
qed

section \<open>The function on the rows of the sheet\<close>

lemma trim_empty_iff: "trim s = [] \<longleftrightarrow> is_blank s"
proof -
  have "(\<forall>x\<in>set (dropWhile is_space s). is_space x) \<longleftrightarrow> (\<forall>x\<in>set s. is_space x)"
  proof
    assume a: "\<forall>x\<in>set (dropWhile is_space s). is_space x"
    have "dropWhile is_space s = []"
    proof (rule ccontr)
      assume n: "dropWhile is_space s \<noteq> []"
      then have "\<not> is_space (hd (dropWhile is_space s))" by (rule hd_dropWhile)
      moreover from n have "hd (dropWhile is_space s) \<in> set (dropWhile is_space s)" by simp
      ultimately show False using a by blast
    qed
    then show "\<forall>x\<in>set s. is_space x" by simp
  next
    assume "\<forall>x\<in>set s. is_space x"
    then show "\<forall>x\<in>set (dropWhile is_space s). is_space x"
      by (meson set_dropWhileD)
  qed
  then show ?thesis by (simp add: trim_def is_blank_def list_all_iff)
qed

lemma parsed_id_nonempty: "parseSheetIdFromUrl url = Inr sid \<Longrightarrow> sid \<noteq> []"
  by (auto simp: parseSheetIdFromUrl_def split: option.splits if_splits)

lemma blank_no_match: "is_blank s \<Longrightarrow> url_match s = None"
  unfolding is_blank_def
proof (induction s)
  case Nil
  show ?case by (simp add: match_here_def sheets_segment_def)
next
  case (Cons c cs)
  then have "c \<noteq> CHR ''/''" by (auto simp: is_space_def)
  then have "match_here (c # cs) = None"
    by (simp add: match_here_def sheets_segment_def)
  with Cons show ?case by simp
qed

lemma blank_url_fails:
  "is_blank url \<Longrightarrow>
     parseSheetIdFromUrl url = Inl (Error (''Invalid Google Sheets URL: '' @ url))"
  by (simp add: parseSheetIdFromUrl_def blank_no_match)

lemma row_valid_pushes: "row_valid row \<Longrightarrow> row_pushes row"
  by (auto simp: row_valid_def row_pushes_def is_blank_def split: option.splits)

lemma row_incomplete_no_push: "row_incomplete row \<Longrightarrow> \<not> row_pushes row"
  by (auto simp: row_incomplete_def row_pushes_def split: option.splits)

lemma row_malformed_no_push: "row_malformed_url row \<Longrightarrow> \<not> row_pushes row"
  by (auto simp: row_malformed_url_def row_pushes_def split: option.splits sum.splits)

lemma valid_row_record_ok:
  assumes "row_valid row" "url_ok (trim (row ! 12))"
  shows "entry_ok url_ok (row_record row)"
proof -
  from assms(1) obtain nm url hook sid where
    c: "cell row 0 = Some nm" "cell row 2 = Some url" "cell row 12 = Some hook"
    and b: "\<not> is_blank nm" "\<not> is_blank hook" and p: "parseSheetIdFromUrl url = Inr sid"
    by (auto simp: row_valid_def split: option.splits sum.splits)
  from c have r: "row ! 0 = nm" "row ! 2 = url" "row ! 12 = hook"
    by (auto simp: cell_def split: if_splits)
  have "trim nm \<noteq> []" "trim hook \<noteq> []" using b by (simp_all add: trim_empty_iff)
  moreover have "sid \<noteq> []" using p by (rule parsed_id_nonempty)
  moreover have "isValidCellAddress ''C9''" "isValidCellAddress ''C11''"
    by (simp_all add: isValidCellAddress_def is_upper_def is_nonzero_digit_def is_digit_def)
  ultimately show ?thesis
    using assms(2) p by (simp add: entry_ok_def row_record_def r truthy_def js_string_def)
qed

lemma validateConfig_argument:
  "fst (snd (validateConfig url_ok (ConfigArray cs))) = ConfigArray cs"
proof -
  obtain r cs' where f: "validateConfig_forEach url_ok 0 cs = (r, cs')"
    by (cases "validateConfig_forEach url_ok 0 cs")
  then have "cs' = cs" using forEach_array [of url_ok 0 cs] by simp
  with f show ?thesis
    by (simp add: validateConfig_def split: sum.splits)
qed

lemma loadConfig_on_rows:
  assumes "truthy env" "initialize svc = Inr ()"
    and "getRange svc (js_string env) ''A3:M'' ''Commander Database'' = Inr (Some rows)"
    and "filter row_pushes rows \<noteq> []"
    and "list_all (entry_ok url_ok) (map row_record (filter row_pushes rows))"
  shows "fst (loadConfig url_ok env svc) = Inr (map row_record (filter row_pushes rows))"
proof -
  let ?cfg = "map row_record (filter row_pushes rows)"
  from assms(4) have ne: "rows \<noteq> []" by auto
  with assms(4) have d: "fst (loadConfig_discover (Some rows)) = Inr ?cfg"
    by (simp add: loadConfig_discover_result)
  from assms(4) have "?cfg \<noteq> []" by simp
  with assms(5) have v: "fst (validateConfig url_ok (ConfigArray ?cfg)) = Inr ()"
    using violations_none [of url_ok ?cfg] by (simp add: validateConfig_outcome)
  show ?thesis
    using assms(1-3) d v
    by (simp add: loadConfig_outcome loadConfig_try_outcome validateConfig_argument array_items_def)
qed

subsection \<open>The example rows\<close>

lemma example_ids:
  "parseSheetIdFromUrl ''https://docs.google.com/spreadsheets/d/1AbCdEfG/edit'' = Inr ''1AbCdEfG''"
  "parseSheetIdFromUrl ''https://docs.google.com/spreadsheets/d/1ZyXwVu'' = Inr ''1ZyXwVu''"
  "parseSheetIdFromUrl ''https://docs.google.com/spreadsheets/d/1DeF'' = Inr ''1DeF''"
  by code_simp+

lemma example_rows_classified:
  "row_valid example_row_saraian" "row_valid example_row_keltic" "row_valid example_row_badhook"
  "row_incomplete example_row_blank" "row_incomplete example_row_no_name"
  "row_malformed_url example_row_badurl" "row_malformed_url example_row_blank_url"
  "\<not> row_valid example_row_blank" "\<not> row_valid example_row_no_name"
  "\<not> row_valid example_row_badurl" "\<not> row_valid example_row_blank_url"
  "\<not> row_valid example_row_spaces"
  by code_simp+

lemma example_records:
  "row_record example_row_saraian = example_config_good"
  "row_record example_row_keltic =
     \<lparr>name = Some ''Keltic Raiders'', sheetId = Some ''1ZyXwVu'', sheetName = Some ''Sheet1'',
      webhookUrl = Some ''https://discord.com/api/webhooks/456/def'',
      currentSuppliesCell = Some ''C9'', dailyConsumptionCell = Some ''C11''\<rparr>"
  by code_simp+

lemma example_endpoints_ok:
  "example_url_ok (trim (example_row_saraian ! 12))" "example_url_ok (trim (example_row_keltic ! 12))"
  "\<not> example_url_ok (trim (example_row_badhook ! 12))"
  by code_simp+

lemma example_service_calls:
  "truthy (Some ''db'')" "initialize (example_service rows) = Inr ()"
  "getRange (example_service rows) (js_string (Some ''db'')) ''A3:M'' ''Commander Database'' = Inr rows"
  by (simp_all add: truthy_def example_service_def)

subsection \<open>Rows that are all valid\<close>

text \<open>
  C2, for rows the validator accepts: when the environment variable is set and the
  service delivers a row sequence that is not empty, in which every row has a name at
  position 0 that is not blank, a URL at position 2 from which the identifier is extracted,
  and an endpoint at position 12 that is not blank and, trimmed, parses as a URL, the
  function returns an array as long as the input, and its i-th record has the trimmed name
  of row i, the identifier extracted from its URL, its trimmed endpoint, the sheet name
  "Sheet1" and the cells "C9" and "C11".
\<close>

theorem pipeline_all_valid:
  assumes "truthy env" "initialize svc = Inr ()"
    and "getRange svc (js_string env) ''A3:M'' ''Commander Database'' = Inr (Some rows)"
    and "rows \<noteq> []"
    and "\<forall>row\<in>set rows. \<exists>nm url hook sid. cell row 0 = Some nm \<and> \<not> is_blank nm \<and>
           cell row 2 = Some url \<and> parseSheetIdFromUrl url = Inr sid \<and>
           cell row 12 = Some hook \<and> \<not> is_blank hook \<and> url_ok (trim hook)"
  shows "\<exists>config. fst (loadConfig url_ok env svc) = Inr config \<and>
           length config = length rows \<and>
           (\<forall>i<length rows.
              name (config ! i) = Some (trim (rows ! i ! 0)) \<and>
              (\<exists>sid. parseSheetIdFromUrl (rows ! i ! 2) = Inr sid \<and>
                 sheetId (config ! i) = Some sid) \<and>
              webhookUrl (config ! i) = Some (trim (rows ! i ! 12)) \<and>
              sheetName (config ! i) = Some ''Sheet1'' \<and>
              currentSuppliesCell (config ! i) = Some ''C9'' \<and>
              dailyConsumptionCell (config ! i) = Some ''C11'')"
proof -
  have v: "row_valid row \<and> url_ok (trim (row ! 12))" if "row \<in> set rows" for row
  proof -
    from assms(5) that obtain nm url hook sid where
      h: "cell row 0 = Some nm" "\<not> is_blank nm" "cell row 2 = Some url"
      "parseSheetIdFromUrl url = Inr sid" "cell row 12 = Some hook" "\<not> is_blank hook"
      "url_ok (trim hook)" by blast
    have "\<not> is_blank url"
      using h(4) blank_url_fails [of url] by auto
    moreover from h(5) have "row ! 12 = hook" by (auto simp: cell_def split: if_splits)
    ultimately show ?thesis using h by (simp add: row_valid_def)
  qed
  then have "\<forall>row\<in>set rows. row_pushes row" using row_valid_pushes by blast
  then have f: "filter row_pushes rows = rows" by (simp add: filter_id_conv)
  have ok: "list_all (entry_ok url_ok) (map row_record (filter row_pushes rows))"
    using v valid_row_record_ok by (simp add: f list_all_iff)
  from assms(4) f have "filter row_pushes rows \<noteq> []" by simp
  from loadConfig_on_rows [OF assms(1-3) this ok] f
  have d: "fst (loadConfig url_ok env svc) = Inr (map row_record rows)" by simp
  have "name (map row_record rows ! i) = Some (trim (rows ! i ! 0)) \<and>
        (\<exists>sid. parseSheetIdFromUrl (rows ! i ! 2) = Inr sid \<and>
           sheetId (map row_record rows ! i) = Some sid) \<and>
        webhookUrl (map row_record rows ! i) = Some (trim (rows ! i ! 12)) \<and>
        sheetName (map row_record rows ! i) = Some ''Sheet1'' \<and>
        currentSuppliesCell (map row_record rows ! i) = Some ''C9'' \<and>
        dailyConsumptionCell (map row_record rows ! i) = Some ''C11''" if "i < length rows" for i
  proof -
    from that have "rows ! i \<in> set rows" by simp
    with assms(5) obtain url sid where "cell (rows ! i) 2 = Some url"
      "parseSheetIdFromUrl url = Inr sid" by blast
    then have "parseSheetIdFromUrl (rows ! i ! 2) = Inr sid"
      by (auto simp: cell_def split: if_splits)
    then show ?thesis using that by (simp add: row_record_def)
  qed
  with d show ?thesis by simp
qed

theorem pipeline_all_valid_witness:
  "[example_row_saraian, example_row_keltic] \<noteq> [] \<and>
   \<not> is_blank '' Keltic Raiders '' \<and>
   example_url_ok (trim ''https://discord.com/api/webhooks/456/def'') \<and>
   (\<exists>config. fst (loadConfig example_url_ok (Some ''db'')
                    (example_service (Some [example_row_saraian, example_row_keltic]))) =
        Inr config \<and> length config = 2 \<and>
      name (config ! 0) = Some ''Saraian 1st Army'' \<and> sheetId (config ! 0) = Some ''1AbCdEfG'' \<and>
      name (config ! 1) = Some ''Keltic Raiders'' \<and> sheetId (config ! 1) = Some ''1ZyXwVu'' \<and>
      webhookUrl (config ! 1) = Some ''https://discord.com/api/webhooks/456/def'' \<and>
      sheetName (config ! 1) = Some ''Sheet1'' \<and>
      currentSuppliesCell (config ! 1) = Some ''C9'' \<and>
      dailyConsumptionCell (config ! 1) = Some ''C11'')"
proof -
  let ?rows = "[example_row_saraian, example_row_keltic]"
  have ne: "?rows \<noteq> []" by simp
  have b: "\<not> is_blank ''Saraian 1st Army''" "\<not> is_blank '' Keltic Raiders ''"
    "\<not> is_blank ''https://discord.com/api/webhooks/123/abc''"
    "\<not> is_blank ''https://discord.com/api/webhooks/456/def''"
    by code_simp+
  have u: "example_url_ok (trim ''https://discord.com/api/webhooks/123/abc'')"
    "example_url_ok (trim ''https://discord.com/api/webhooks/456/def'')"
    by code_simp+
  have h: "\<forall>row\<in>set ?rows. \<exists>nm url hook sid. cell row 0 = Some nm \<and> \<not> is_blank nm \<and>
           cell row 2 = Some url \<and> parseSheetIdFromUrl url = Inr sid \<and>
           cell row 12 = Some hook \<and> \<not> is_blank hook \<and> example_url_ok (trim hook)"
    by (simp add: cell_def example_row_saraian_def example_row_keltic_def example_ids b u)
  have t: "trim '' Keltic Raiders '' = ''Keltic Raiders''"
    "trim ''Saraian 1st Army'' = ''Saraian 1st Army''"
    "trim ''https://discord.com/api/webhooks/456/def'' = ''https://discord.com/api/webhooks/456/def''"
    by code_simp+
  note s = example_service_calls(1) example_service_calls(2) [of "Some ?rows"]
    example_service_calls(3) [of "Some ?rows"]
  from pipeline_all_valid [OF s ne h] obtain config where
    c: "fst (loadConfig example_url_ok (Some ''db'') (example_service (Some ?rows))) = Inr config"
      "length config = length ?rows"
    and f: "\<And>i. i < length ?rows \<Longrightarrow>
              name (config ! i) = Some (trim (?rows ! i ! 0)) \<and>
              (\<exists>sid. parseSheetIdFromUrl (?rows ! i ! 2) = Inr sid \<and>
                 sheetId (config ! i) = Some sid) \<and>
              webhookUrl (config ! i) = Some (trim (?rows ! i ! 12)) \<and>
              sheetName (config ! i) = Some ''Sheet1'' \<and>
              currentSuppliesCell (config ! i) = Some ''C9'' \<and>
              dailyConsumptionCell (config ! i) = Some ''C11''" by blast
  from f [of 0] have "name (config ! 0) = Some ''Saraian 1st Army'' \<and> sheetId (config ! 0) = Some ''1AbCdEfG''"
    by (auto simp: example_row_saraian_def example_ids t)
  moreover from f [of 1] have "name (config ! 1) = Some ''Keltic Raiders'' \<and> sheetId (config ! 1) = Some ''1ZyXwVu'' \<and>
      webhookUrl (config ! 1) = Some ''https://discord.com/api/webhooks/456/def'' \<and>
      sheetName (config ! 1) = Some ''Sheet1'' \<and>
      currentSuppliesCell (config ! 1) = Some ''C9'' \<and>
      dailyConsumptionCell (config ! 1) = Some ''C11''"
    by (auto simp: example_row_keltic_def example_ids t)
  ultimately show ?thesis using c b u by simp
qed

text \<open>
  A row with a name, an extractable URL and the endpoint "abc", which is not empty and
  does not parse as a URL: the validator rejects the array and the function fails.
\<close>

theorem pipeline_all_valid_counterexample:
  "cell example_row_badhook 0 = Some ''Northern Legion'' \<and>
   cell example_row_badhook 2 = Some ''https://docs.google.com/spreadsheets/d/1DeF'' \<and>
   parseSheetIdFromUrl ''https://docs.google.com/spreadsheets/d/1DeF'' = Inr ''1DeF'' \<and>
   cell example_row_badhook 12 = Some ''abc'' \<and>
   fst (loadConfig example_url_ok (Some ''db'') (example_service (Some [example_row_badhook]))) =
     Inl (Error ''Configuration loading failed: Sheet configuration 0 has invalid webhook URL: abc'')"
  by code_simp

subsection \<open>Valid rows among others\<close>

text \<open>
  C3, for valid rows the validator accepts: when the environment variable is set, the
  service delivers rows of which at least one is fully valid, every row is fully valid,
  incomplete or has a malformed URL, and the trimmed endpoint of each fully valid row
  parses as a URL, the function throws nothing and returns exactly the records of the fully
  valid rows, in the order of the rows.
\<close>

theorem pipeline_valid_rows:
  assumes "truthy env" "initialize svc = Inr ()"
    and "getRange svc (js_string env) ''A3:M'' ''Commander Database'' = Inr (Some rows)"
    and "\<exists>row\<in>set rows. row_valid row"
    and "\<forall>row\<in>set rows. row_valid row \<or> row_incomplete row \<or> row_malformed_url row"
    and "\<forall>row\<in>set rows. row_valid row \<longrightarrow> url_ok (trim (row ! 12))"
  shows "fst (loadConfig url_ok env svc) = Inr (map row_record (filter row_valid rows))"
proof -
  have "row_pushes row \<longleftrightarrow> row_valid row" if "row \<in> set rows" for row
    using that assms(5) row_valid_pushes row_incomplete_no_push row_malformed_no_push by blast
  then have f: "filter row_pushes rows = filter row_valid rows"
    by (simp cong: filter_cong)
  from assms(4) have ne: "filter row_valid rows \<noteq> []" by (simp add: filter_empty_conv)
  have ok: "list_all (entry_ok url_ok) (map row_record (filter row_valid rows))"
    using assms(6) valid_row_record_ok by (simp add: list_all_iff)
  from loadConfig_on_rows [OF assms(1-3), of url_ok] ne ok f show ?thesis by simp
qed

theorem pipeline_valid_rows_witness:
  "row_valid example_row_saraian \<and> row_incomplete example_row_blank \<and>
   row_malformed_url example_row_badurl \<and> row_malformed_url example_row_blank_url \<and>
   fst (loadConfig example_url_ok (Some ''db'')
          (example_service
             (Some [example_row_saraian, example_row_blank, example_row_badurl,
                    example_row_blank_url, example_row_keltic]))) =
     Inr [example_config_good,
          \<lparr>name = Some ''Keltic Raiders'', sheetId = Some ''1ZyXwVu'', sheetName = Some ''Sheet1'',
           webhookUrl = Some ''https://discord.com/api/webhooks/456/def'',
           currentSuppliesCell = Some ''C9'', dailyConsumptionCell = Some ''C11''\<rparr>]"
proof -
  let ?rows = "[example_row_saraian, example_row_blank, example_row_badurl,
                example_row_blank_url, example_row_keltic]"
  have a: "\<exists>row\<in>set ?rows. row_valid row" by (simp add: example_rows_classified)
  have b: "\<forall>row\<in>set ?rows. row_valid row \<or> row_incomplete row \<or> row_malformed_url row"
    by (simp add: example_rows_classified)
  have c: "\<forall>row\<in>set ?rows. row_valid row \<longrightarrow> example_url_ok (trim (row ! 12))"
    by (simp add: example_rows_classified example_endpoints_ok)
  note s = example_service_calls(1) example_service_calls(2) [of "Some ?rows"]
    example_service_calls(3) [of "Some ?rows"]
  from pipeline_valid_rows [OF s a b c] show ?thesis
    by (simp add: example_rows_classified example_records)
qed

text \<open>
  A fully valid row, an incomplete row and a second fully valid row whose endpoint "abc"
  does not parse as a URL: the validator rejects the second record and the function fails.
\<close>

theorem pipeline_valid_rows_counterexample:
  "row_valid example_row_saraian \<and> row_incomplete example_row_blank \<and>
   row_valid example_row_badhook \<and>
   fst (loadConfig example_url_ok (Some ''db'')
          (example_service (Some [example_row_saraian, example_row_blank, example_row_badhook]))) =
     Inl (Error ''Configuration loading failed: Sheet configuration 1 has invalid webhook URL: abc'')"
  by code_simp

subsection \<open>A row whose name is blank\<close>

text \<open>
  C4 at a row whose name is white space only. The row is not fully valid, yet the loop
  does not skip it: discovery pushes a record with the empty name, and the function, which
  returns the record of the other row when that row stands alone, fails for the two rows
  with "missing required field: name"; a row whose endpoint is white space only fails it
  with "missing required field: webhookUrl". A row whose URL is white space only, and a row
  whose name is empty, are skipped, and the function returns the record of the other row.
\<close>

theorem blank_name_row_aborts:
  "is_blank (example_row_spaces ! 0) \<and> \<not> row_valid example_row_spaces \<and>
   fst (loadConfig_discover (Some [example_row_saraian, example_row_spaces])) =
     Inr [example_config_good,
          \<lparr>name = Some '''', sheetId = Some ''1DeF'', sheetName = Some ''Sheet1'',
           webhookUrl = Some ''https://discord.com/api/webhooks/333/ccc'',
           currentSuppliesCell = Some ''C9'', dailyConsumptionCell = Some ''C11''\<rparr>] \<and>
   fst (loadConfig example_url_ok (Some ''db'') (example_service (Some [example_row_saraian]))) =
     Inr [example_config_good] \<and>
   fst (loadConfig example_url_ok (Some ''db'')
          (example_service (Some [example_row_saraian, example_row_spaces]))) =
     Inl (Error ''Configuration loading failed: Sheet configuration 1 is missing required field: name'') \<and>
   is_blank (example_row_blank_hook ! 12) \<and>
   fst (loadConfig example_url_ok (Some ''db'')
          (example_service (Some [example_row_saraian, example_row_blank_hook]))) =
     Inl (Error ''Configuration loading failed: Sheet configuration 1 is missing required field: webhookUrl'') \<and>
   is_blank (example_row_blank_url ! 2) \<and>
   fst (loadConfig example_url_ok (Some ''db'')
          (example_service (Some [example_row_saraian, example_row_blank_url]))) =
     Inr [example_config_good] \<and>
   fst (loadConfig example_url_ok (Some ''db'')
          (example_service (Some [example_row_saraian, example_row_no_name]))) =
     Inr [example_config_good]"
  by code_simp

end
